theory Spec2Isabelle
  imports Complex_Main
begin

section \<open>Data model of pesa\_min\_y\_clase.py\<close>

text \<open>
  Python floats are modelled as real numbers: rounding, overflow, infinities and NaN are
  outside the model. Every exception the arithmetic of the source can raise on real
  arguments is a value of \<open>error\<close>.

  A Python \<open>dict\<close> is an association list in insertion order, read with \<open>map_of\<close>;
  the lists that stand for a dict have distinct keys. \<open>Optional[float]\<close> is
  \<open>real option\<close>, \<open>None\<close> for Python's \<open>None\<close>.
\<close>

datatype error =
    UsageError          \<comment> \<open>the \<open>ValueError\<close> raised by \<open>seleccionar_clase_pesa\<close> itself\<close>
  | MathDomainError     \<comment> \<open>the \<open>ValueError\<close> of \<open>math.sqrt\<close> and \<open>math.log10\<close>\<close>
  | ZeroDivisionError   \<comment> \<open>float division by zero\<close>
  | KeyError            \<comment> \<open>subscript of a dict with a missing key\<close>
  | TypeError           \<comment> \<open>comparison of a float with \<open>None\<close>\<close>

type_synonym fila = "(string \<times> real) list"
type_synonym tabla = "(real \<times> fila) list"

definition MPE_TABLE_EXAMPLE_MG :: tabla where
  "MPE_TABLE_EXAMPLE_MG =
   [(1,     [(''E2'', 1),   (''F1'', 3),   (''F2'', 10),   (''M1'', 50),    (''M2'', 150),   (''M3'', 500)]),
    (2,     [(''E2'', 1.2), (''F1'', 3.5), (''F2'', 12),   (''M1'', 60),    (''M2'', 180),   (''M3'', 600)]),
    (5,     [(''E2'', 1.5), (''F1'', 4),   (''F2'', 15),   (''M1'', 75),    (''M2'', 225),   (''M3'', 750)]),
    (10,    [(''E2'', 2),   (''F1'', 5),   (''F2'', 20),   (''M1'', 100),   (''M2'', 300),   (''M3'', 1000)]),
    (20,    [(''E2'', 3),   (''F1'', 8),   (''F2'', 30),   (''M1'', 150),   (''M2'', 450),   (''M3'', 1500)]),
    (50,    [(''E2'', 5),   (''F1'', 12),  (''F2'', 50),   (''M1'', 250),   (''M2'', 750),   (''M3'', 2500)]),
    (100,   [(''E2'', 8),   (''F1'', 20),  (''F2'', 80),   (''M1'', 400),   (''M2'', 1200),  (''M3'', 4000)]),
    (200,   [(''E2'', 12),  (''F1'', 30),  (''F2'', 120),  (''M1'', 600),   (''M2'', 1800),  (''M3'', 6000)]),
    (500,   [(''E2'', 20),  (''F1'', 50),  (''F2'', 200),  (''M1'', 1000),  (''M2'', 3000),  (''M3'', 10000)]),
    (1000,  [(''E2'', 30),  (''F1'', 80),  (''F2'', 300),  (''M1'', 1500),  (''M2'', 4500),  (''M3'', 15000)]),
    (2000,  [(''E2'', 50),  (''F1'', 120), (''F2'', 500),  (''M1'', 2500),  (''M2'', 7500),  (''M3'', 25000)]),
    (5000,  [(''E2'', 80),  (''F1'', 200), (''F2'', 800),  (''M1'', 4000),  (''M2'', 12000), (''M3'', 40000)]),
    (10000, [(''E2'', 120), (''F1'', 300), (''F2'', 1200), (''M1'', 6000),  (''M2'', 18000), (''M3'', 60000)]),
    (20000, [(''E2'', 200), (''F1'', 500), (''F2'', 2000), (''M1'', 10000), (''M2'', 30000), (''M3'', 100000)]),
    (50000, [(''E2'', 300), (''F1'', 800), (''F2'', 3000), (''M1'', 15000), (''M2'', 45000), (''M3'', 150000)])]"

definition CLASSES_ORDER :: "string list" where
  "CLASSES_ORDER = [''E2'', ''F1'', ''F2'', ''M1'', ''M2'', ''M3'']"


section \<open>Library functions the source calls\<close>

definition math_sqrt :: "real \<Rightarrow> error + real" where
  "math_sqrt x = (if x < 0 then Inl MathDomainError else Inr (sqrt x))"

definition math_log10 :: "real \<Rightarrow> error + real" where
  "math_log10 x = (if x \<le> 0 then Inl MathDomainError else Inr (log 10 x))"

definition float_div :: "real \<Rightarrow> real \<Rightarrow> error + real" where
  "float_div a b = (if b = 0 then Inl ZeroDivisionError else Inr (a / b))"

text \<open>
  \<open>bisect.bisect_left(a, x)\<close> with its default bounds: the loop of the standard library,
  \<open>lo = 0\<close>, \<open>hi = len(a)\<close>, halving while \<open>lo < hi\<close>.
\<close>

function bisect_left_loop :: "real list \<Rightarrow> real \<Rightarrow> nat \<Rightarrow> nat \<Rightarrow> nat" where
  "bisect_left_loop a x lo hi =
     (if lo < hi
      then (let mid = (lo + hi) div 2
            in if a ! mid < x then bisect_left_loop a x (mid + 1) hi
               else bisect_left_loop a x lo mid)
      else lo)"
  by pat_completeness auto
termination
  by (relation "measure (\<lambda>(a, x, lo, hi). hi - lo)") auto

declare bisect_left_loop.simps [simp del]

definition bisect_left :: "real list \<Rightarrow> real \<Rightarrow> nat" where
  "bisect_left a x = bisect_left_loop a x 0 (length a)"


section \<open>The uncertainty calculator\<close>

definition s_efectiva :: "real \<Rightarrow> real option \<Rightarrow> bool \<Rightarrow> error + real" where
  "s_efectiva s d incluir_resolucion =
     (case d of
        Some dv \<Rightarrow>
          if incluir_resolucion
          then (case math_sqrt 12 of
                  Inl e \<Rightarrow> Inl e
                | Inr r12 \<Rightarrow>
                    (case float_div dv r12 of
                       Inl e \<Rightarrow> Inl e
                     | Inr q \<Rightarrow> math_sqrt (s ^ 2 + q ^ 2)))
          else Inr s
      | None \<Rightarrow> Inr s)"

definition masa_minima :: "real \<Rightarrow> real option \<Rightarrow> real \<Rightarrow> real \<Rightarrow> bool \<Rightarrow> error + real" where
  "masa_minima s d r_rel k incluir_resolucion =
     (case s_efectiva s d incluir_resolucion of
        Inl e \<Rightarrow> Inl e
      | Inr s_eff \<Rightarrow> float_div (k * s_eff) r_rel)"


section \<open>The class selector\<close>

text \<open>
  Lines 103 and 104 of \<open>mpe_mg_para\<close>, the log-log interpolation between the
  bracketing rows, with the source's order of evaluation.
\<close>

definition interpolar_loglog :: "real \<Rightarrow> real \<Rightarrow> real \<Rightarrow> real \<Rightarrow> real \<Rightarrow> error + real" where
  "interpolar_loglog mass_g x0 x1 y0 y1 =
     (case math_log10 mass_g of Inl e \<Rightarrow> Inl e | Inr lm \<Rightarrow>
     (case math_log10 x0 of Inl e \<Rightarrow> Inl e | Inr l0 \<Rightarrow>
     (case math_log10 x1 of Inl e \<Rightarrow> Inl e | Inr l1 \<Rightarrow>
     (case math_log10 x0 of Inl e \<Rightarrow> Inl e | Inr l0' \<Rightarrow>
     (case float_div (lm - l0) (l1 - l0') of Inl e \<Rightarrow> Inl e | Inr t \<Rightarrow>
     (case math_log10 y0 of Inl e \<Rightarrow> Inl e | Inr ly0 \<Rightarrow>
     (case math_log10 y1 of Inl e \<Rightarrow> Inl e | Inr ly1 \<Rightarrow>
     (case math_log10 y0 of Inl e \<Rightarrow> Inl e | Inr ly0' \<Rightarrow>
        Inr (10 powr (ly0 + t * (ly1 - ly0')))))))))))"

text \<open>
  Lines 92 to 102 of \<open>mpe_mg_para\<close>: the path taken when the mass is not a key of the
  table or its row has no value for the class.
\<close>

definition mpe_interpolada :: "real \<Rightarrow> string \<Rightarrow> tabla \<Rightarrow> error + real option" where
  "mpe_interpolada mass_g clase tabla =
     (let xs = sort (map fst tabla)
      in if xs = [] \<or> mass_g < hd xs \<or> mass_g > last xs then Inr None
         else
           (let i = bisect_left xs mass_g
            in if i = 0 \<or> i = length xs then Inr None
               else
                 (let x0 = xs ! (i - 1); x1 = xs ! i
                  in case map_of tabla x0 of
                       None \<Rightarrow> Inl KeyError
                     | Some f0 \<Rightarrow>
                   (case map_of tabla x1 of
                       None \<Rightarrow> Inl KeyError
                     | Some f1 \<Rightarrow>
                   (case map_of f0 clase of
                       None \<Rightarrow> Inr None
                     | Some y0 \<Rightarrow>
                   (case map_of f1 clase of
                       None \<Rightarrow> Inr None
                     | Some y1 \<Rightarrow>
                   (case interpolar_loglog mass_g x0 x1 y0 y1 of
                       Inl e \<Rightarrow> Inl e
                     | Inr v \<Rightarrow> Inr (Some v))))))))"

definition mpe_mg_para :: "real \<Rightarrow> string \<Rightarrow> tabla \<Rightarrow> error + real option" where
  "mpe_mg_para mass_g clase tabla =
     (case map_of tabla mass_g of
        None \<Rightarrow> mpe_interpolada mass_g clase tabla
      | Some f \<Rightarrow>
          (case map_of f clase of
             None \<Rightarrow> mpe_interpolada mass_g clase tabla
           | Some v \<Rightarrow> Inr (Some v)))"

text \<open>The \<open>for\<close> loop of \<open>seleccionar_clase_pesa\<close>, lines 114 to 125.\<close>

fun recorrer_clases ::
  "real \<Rightarrow> real option \<Rightarrow> real option \<Rightarrow> tabla \<Rightarrow> string list \<Rightarrow> error + string option" where
  "recorrer_clases mass_g umbral_std_g umbral_mpe_mg tabla [] = Inr None"
| "recorrer_clases mass_g umbral_std_g umbral_mpe_mg tabla (clase # resto) =
     (case mpe_mg_para mass_g clase tabla of
        Inl e \<Rightarrow> Inl e
      | Inr None \<Rightarrow> recorrer_clases mass_g umbral_std_g umbral_mpe_mg tabla resto
      | Inr (Some mpe_mg) \<Rightarrow>
          (case umbral_mpe_mg of
             Some u_mpe \<Rightarrow>
               if mpe_mg \<le> u_mpe then Inr (Some clase)
               else recorrer_clases mass_g umbral_std_g umbral_mpe_mg tabla resto
           | None \<Rightarrow>
               (case math_sqrt 3 of
                  Inl e \<Rightarrow> Inl e
                | Inr r3 \<Rightarrow>
                    (case float_div (mpe_mg / 1000) r3 of
                       Inl e \<Rightarrow> Inl e
                     | Inr u_std_g \<Rightarrow>
                         (case umbral_std_g of
                            None \<Rightarrow> Inl TypeError
                          | Some u_std \<Rightarrow>
                              if u_std_g \<le> u_std then Inr (Some clase)
                              else recorrer_clases mass_g umbral_std_g umbral_mpe_mg tabla resto)))))"

text \<open>
  \<open>tabla_mpe_mg or MPE_TABLE_EXAMPLE_MG\<close>: \<open>None\<close> and the empty dict are both falsy.
\<close>

definition tabla_o_ejemplo :: "tabla option \<Rightarrow> tabla" where
  "tabla_o_ejemplo tabla_mpe_mg =
     (case tabla_mpe_mg of
        None \<Rightarrow> MPE_TABLE_EXAMPLE_MG
      | Some t \<Rightarrow> if t = [] then MPE_TABLE_EXAMPLE_MG else t)"

definition seleccionar_clase_pesa ::
  "real \<Rightarrow> real option \<Rightarrow> real option \<Rightarrow> tabla option \<Rightarrow> string list \<Rightarrow> error + string option" where
  "seleccionar_clase_pesa mass_g umbral_std_g umbral_mpe_mg tabla_mpe_mg clases_orden =
     (let tabla = tabla_o_ejemplo tabla_mpe_mg
      in if umbral_mpe_mg = None \<and> umbral_std_g = None then Inl UsageError
         else recorrer_clases mass_g umbral_std_g umbral_mpe_mg tabla clases_orden)"


section \<open>Notions of the specification\<close>

text \<open>
  The effective repeatability in the words of the specification (section 4.1): \<open>s\<close>
  unchanged if the resolution is not included or \<open>d\<close> is absent, otherwise
  \<open>sqrt (s ^ 2 + (d / sqrt 12) ^ 2)\<close>.
\<close>

definition effective_repeatability :: "real \<Rightarrow> real option \<Rightarrow> bool \<Rightarrow> real" where
  "effective_repeatability s d include_resolution =
     (case d of
        None \<Rightarrow> s
      | Some dv \<Rightarrow> if include_resolution then sqrt (s ^ 2 + (dv / sqrt 12) ^ 2) else s)"

text \<open>
  The invariant of an MPE table in the data model of the specification (section 3): nominal
  masses and MPE values are positive reals.
\<close>

definition tabla_valida :: "tabla \<Rightarrow> bool" where
  "tabla_valida tabla = list_all (\<lambda>(m, f). 0 < m \<and> list_all (\<lambda>(c, v). 0 < v) f) tabla"

text \<open>
  When a class qualifies, in the words of the specification (section 4.3): with an MPE
  threshold, \<open>mpe_mg \<le> threshold_mpe_mg\<close>; with a standard-uncertainty threshold,
  \<open>mpe_mg / 1000 / sqrt 3 \<le> threshold_std_g\<close>. A class whose MPE is not available
  does not qualify.
\<close>

definition cumple_umbral :: "real option \<Rightarrow> real option \<Rightarrow> real \<Rightarrow> bool" where
  "cumple_umbral umbral_std_g umbral_mpe_mg mpe_mg =
     (case umbral_mpe_mg of
        Some u_mpe \<Rightarrow> mpe_mg \<le> u_mpe
      | None \<Rightarrow>
          (case umbral_std_g of
             Some u_std \<Rightarrow> mpe_mg / 1000 / sqrt 3 \<le> u_std
           | None \<Rightarrow> False))"

definition clase_califica ::
  "real \<Rightarrow> real option \<Rightarrow> real option \<Rightarrow> tabla \<Rightarrow> string \<Rightarrow> bool" where
  "clase_califica mass_g umbral_std_g umbral_mpe_mg tabla clase =
     (case mpe_mg_para mass_g clase tabla of
        Inr (Some mpe_mg) \<Rightarrow> cumple_umbral umbral_std_g umbral_mpe_mg mpe_mg
      | _ \<Rightarrow> False)"

text \<open>
  The insertion point that \<open>bisect_left\<close> is documented to return: everything before
  index \<open>r\<close> is below \<open>x\<close>, everything from \<open>r\<close> on is at least \<open>x\<close>.
\<close>

definition particion :: "real list \<Rightarrow> real \<Rightarrow> nat \<Rightarrow> bool" where
  "particion a x r =
     (r \<le> length a \<and> (\<forall>j<r. a ! j < x) \<and> (\<forall>j. r \<le> j \<longrightarrow> j < length a \<longrightarrow> x \<le> a ! j))"


section \<open>The uncertainty calculator: results\<close>

lemma sq_sum_not_neg: "\<not> (a::real) ^ 2 + b ^ 2 < 0"
  by (simp add: not_less)

lemma s_efectiva_value: "s_efectiva s d b = Inr (effective_repeatability s d b)"
  by (cases d; cases b)
     (simp_all add: s_efectiva_def math_sqrt_def float_div_def sq_sum_not_neg
        effective_repeatability_def)

lemma masa_minima_value:
  "masa_minima s d r_rel k b =
     (if r_rel = 0 then Inl ZeroDivisionError
      else Inr (k * effective_repeatability s d b / r_rel))"
  by (simp add: masa_minima_def s_efectiva_value float_div_def)

lemma effective_repeatability_nonneg: "0 \<le> effective_repeatability s (Some d) True"
  by (simp add: effective_repeatability_def)

lemma effective_repeatability_mono_s:
  "0 \<le> s \<Longrightarrow> s \<le> s' \<Longrightarrow>
   effective_repeatability s (Some d) True \<le> effective_repeatability s' (Some d) True"
  by (simp add: effective_repeatability_def power_mono)

lemma effective_repeatability_mono_d:
  "0 \<le> d \<Longrightarrow> d \<le> d' \<Longrightarrow>
   effective_repeatability s (Some d) True \<le> effective_repeatability s (Some d') True"
  by (simp add: effective_repeatability_def power_mono divide_right_mono)

lemma effective_repeatability_pos: "0 < s \<Longrightarrow> 0 < effective_repeatability s (Some d) True"
  by (simp add: effective_repeatability_def add_pos_nonneg)

lemma effective_repeatability_strict_s:
  "0 \<le> s \<Longrightarrow> s < s' \<Longrightarrow>
   effective_repeatability s (Some d) True < effective_repeatability s' (Some d) True"
  by (simp add: effective_repeatability_def power_strict_mono)

lemma effective_repeatability_strict_d:
  assumes "0 \<le> d" "d < d'"
  shows "effective_repeatability s (Some d) True < effective_repeatability s (Some d') True"
proof -
  have "d / sqrt 12 < d' / sqrt 12"
    using assms by (simp add: divide_strict_right_mono)
  moreover have "0 \<le> d / sqrt 12" using assms by simp
  ultimately have "(d / sqrt 12) ^ 2 < (d' / sqrt 12) ^ 2"
    by (intro power_strict_mono) simp_all
  then show ?thesis by (simp add: effective_repeatability_def)
qed

text \<open>
  Claim C2, as amended. Over real arithmetic \<open>masa_minima\<close> has no guard on \<open>r_rel\<close>: it
  returns \<open>k * effective_repeatability s d incluir_resolucion / r_rel\<close> for every \<open>r_rel\<close>
  other than zero, negative ones included, and at \<open>r_rel = 0\<close> the float division raises
  \<open>ZeroDivisionError\<close>. No other exception arises over the reals; the overflow of a float
  operation is outside this model.
\<close>

theorem masa_minima_cociente:
  "masa_minima s d r_rel k incluir_resolucion =
     (if r_rel = 0 then Inl ZeroDivisionError
      else Inr (k * effective_repeatability s d incluir_resolucion / r_rel))"
  by (cases d; cases incluir_resolucion)
     (simp_all add: masa_minima_def s_efectiva_def math_sqrt_def float_div_def sq_sum_not_neg
        effective_repeatability_def)

theorem masa_minima_cociente_witness:
  "masa_minima 1 None 0 2 True = Inl ZeroDivisionError \<and>
   masa_minima 1 None (1 / 2) 2 True = Inr 4 \<and>
   masa_minima 1 None (- (1 / 2)) 2 True = Inr (- 4) \<and>
   masa_minima 1 None (- (1 / 2)) (- 2) True = Inr 4"
  using masa_minima_cociente [of 1 None 0 2 True]
    masa_minima_cociente [of 1 None "1 / 2" 2 True]
    masa_minima_cociente [of 1 None "- (1 / 2)" 2 True]
    masa_minima_cociente [of 1 None "- (1 / 2)" "- 2" True]
  by (simp add: effective_repeatability_def)

text \<open>
  Claim C2 as stated fails: with the negative target \<open>r_rel = -0.001\<close> the function
  returns the negative mass \<open>-10\<close> instead of failing.
\<close>

theorem masa_minima_r_rel_negativo:
  "masa_minima 0.005 None (- 0.001) 2 True = Inr (- 10)"
  by (simp add: masa_minima_value effective_repeatability_def)

text \<open>
  Claim C7. For \<open>s > 0\<close>, \<open>d \<ge> 0\<close>, \<open>r_rel > 0\<close> and \<open>k > 0\<close>, with the resolution
  included, \<open>masa_minima\<close> returns a value, and that value is increasing in \<open>s\<close>, in \<open>d\<close>
  and in \<open>k\<close> and decreasing in \<open>r_rel\<close>: a larger \<open>s\<close>, \<open>d\<close> or \<open>k\<close> gives a
  strictly larger result, a larger \<open>r_rel\<close> a strictly smaller one.
\<close>

theorem masa_minima_monotona:
  assumes "0 < s" "0 \<le> d" "0 < r_rel" "0 < k"
  shows "(s \<le> s' \<longrightarrow>
            (\<exists>v v'. masa_minima s (Some d) r_rel k True = Inr v \<and>
                    masa_minima s' (Some d) r_rel k True = Inr v' \<and>
                    v \<le> v' \<and> (s < s' \<longrightarrow> v < v'))) \<and>
         (d \<le> d' \<longrightarrow>
            (\<exists>v v'. masa_minima s (Some d) r_rel k True = Inr v \<and>
                    masa_minima s (Some d') r_rel k True = Inr v' \<and>
                    v \<le> v' \<and> (d < d' \<longrightarrow> v < v'))) \<and>
         (k \<le> k' \<longrightarrow>
            (\<exists>v v'. masa_minima s (Some d) r_rel k True = Inr v \<and>
                    masa_minima s (Some d) r_rel k' True = Inr v' \<and>
                    v \<le> v' \<and> (k < k' \<longrightarrow> v < v'))) \<and>
         (r_rel \<le> r_rel' \<longrightarrow>
            (\<exists>v v'. masa_minima s (Some d) r_rel k True = Inr v \<and>
                    masa_minima s (Some d) r_rel' k True = Inr v' \<and>
                    v' \<le> v \<and> (r_rel < r_rel' \<longrightarrow> v' < v)))"
proof (intro conjI impI)
  let ?e = "effective_repeatability s (Some d) True"
  have epos: "0 < ?e" using assms(1) by (rule effective_repeatability_pos)
  {
    assume le: "s \<le> s'"
    have weak: "k * ?e / r_rel \<le> k * effective_repeatability s' (Some d) True / r_rel"
      using assms le effective_repeatability_mono_s [of s s' d]
      by (simp add: divide_right_mono mult_left_mono)
    have strict: "k * ?e / r_rel < k * effective_repeatability s' (Some d) True / r_rel"
      if "s < s'"
      using assms that effective_repeatability_strict_s [of s s' d]
      by (simp add: divide_strict_right_mono)
    show "\<exists>v v'. masa_minima s (Some d) r_rel k True = Inr v \<and>
        masa_minima s' (Some d) r_rel k True = Inr v' \<and> v \<le> v' \<and> (s < s' \<longrightarrow> v < v')"
      using assms weak strict by (simp add: masa_minima_value)
  }
  {
    assume le: "d \<le> d'"
    have weak: "k * ?e / r_rel \<le> k * effective_repeatability s (Some d') True / r_rel"
      using assms le effective_repeatability_mono_d [of d d' s]
      by (simp add: divide_right_mono mult_left_mono)
    have strict: "k * ?e / r_rel < k * effective_repeatability s (Some d') True / r_rel"
      if "d < d'"
      using assms that effective_repeatability_strict_d [of d d' s]
      by (simp add: divide_strict_right_mono)
    show "\<exists>v v'. masa_minima s (Some d) r_rel k True = Inr v \<and>
        masa_minima s (Some d') r_rel k True = Inr v' \<and> v \<le> v' \<and> (d < d' \<longrightarrow> v < v')"
      using assms weak strict by (simp add: masa_minima_value)
  }
  {
    assume le: "k \<le> k'"
    have weak: "k * ?e / r_rel \<le> k' * ?e / r_rel"
      using assms le epos by (simp add: divide_right_mono mult_right_mono)
    have strict: "k * ?e / r_rel < k' * ?e / r_rel" if "k < k'"
      using assms that epos by (simp add: divide_strict_right_mono)
    show "\<exists>v v'. masa_minima s (Some d) r_rel k True = Inr v \<and>
        masa_minima s (Some d) r_rel k' True = Inr v' \<and> v \<le> v' \<and> (k < k' \<longrightarrow> v < v')"
      using assms weak strict by (simp add: masa_minima_value)
  }
  {
    assume le: "r_rel \<le> r_rel'"
    have num: "0 < k * ?e" using assms epos by simp
    have weak: "k * ?e / r_rel' \<le> k * ?e / r_rel"
      using assms le num by (intro divide_left_mono) simp_all
    have strict: "k * ?e / r_rel' < k * ?e / r_rel" if "r_rel < r_rel'"
      using assms that num by (intro divide_strict_left_mono) simp_all
    have "r_rel' \<noteq> 0" using le assms by simp
    then show "\<exists>v v'. masa_minima s (Some d) r_rel k True = Inr v \<and>
        masa_minima s (Some d) r_rel' k True = Inr v' \<and> v' \<le> v \<and> (r_rel < r_rel' \<longrightarrow> v' < v)"
      using assms weak strict by (simp add: masa_minima_value)
  }
qed

theorem masa_minima_monotona_witness:
  "(\<exists>v v'. masa_minima 3 (Some 0) 1 2 True = Inr v \<and>
           masa_minima 4 (Some 0) 1 2 True = Inr v' \<and> v \<le> v' \<and> v < v') \<and>
   (\<exists>v v'. masa_minima 3 (Some 0) 1 2 True = Inr v \<and>
           masa_minima 3 (Some 1) 1 2 True = Inr v' \<and> v \<le> v' \<and> v < v') \<and>
   (\<exists>v v'. masa_minima 3 (Some 0) 1 2 True = Inr v \<and>
           masa_minima 3 (Some 0) 1 5 True = Inr v' \<and> v \<le> v' \<and> v < v') \<and>
   (\<exists>v v'. masa_minima 3 (Some 0) 1 2 True = Inr v \<and>
           masa_minima 3 (Some 0) 7 2 True = Inr v' \<and> v' \<le> v \<and> v' < v)"
  using masa_minima_monotona [of 3 0 1 2 4 1 5 7] by simp


section \<open>The binary search\<close>

lemma bisect_left_loop_particion:
  shows "sorted a \<Longrightarrow> lo \<le> hi \<Longrightarrow> hi \<le> length a \<Longrightarrow> \<forall>j<lo. a ! j < x \<Longrightarrow>
         \<forall>j. hi \<le> j \<longrightarrow> j < length a \<longrightarrow> x \<le> a ! j \<Longrightarrow>
         particion a x (bisect_left_loop a x lo hi)"
proof (induction a x lo hi rule: bisect_left_loop.induct)
  case (1 a x lo hi)
  show ?case
  proof (cases "lo < hi")
    case False
    with "1.prems" have "lo = hi" by simp
    with "1.prems" False show ?thesis
      by (subst bisect_left_loop.simps) (simp add: particion_def)
  next
    case True
    define mid where "mid = (lo + hi) div 2"
    have mid: "lo \<le> mid" "mid < hi" using True by (simp_all add: mid_def)
    show ?thesis
    proof (cases "a ! mid < x")
      case lt: True
      have below: "\<forall>j<mid + 1. a ! j < x"
      proof (intro allI impI)
        fix j assume "j < mid + 1"
        then have "a ! j \<le> a ! mid"
          using mid "1.prems"(1,3) by (intro sorted_nth_mono) simp_all
        with lt show "a ! j < x" by simp
      qed
      have "particion a x (bisect_left_loop a x (mid + 1) hi)"
        using "1.IH"(1) [OF True mid_def lt] mid "1.prems" below by simp
      with True lt show ?thesis
        by (subst bisect_left_loop.simps) (simp add: mid_def)
    next
      case ge: False
      have above: "\<forall>j. mid \<le> j \<longrightarrow> j < length a \<longrightarrow> x \<le> a ! j"
      proof (intro allI impI)
        fix j assume "mid \<le> j" "j < length a"
        then have "a ! mid \<le> a ! j"
          using "1.prems"(1) by (intro sorted_nth_mono) simp_all
        with ge show "x \<le> a ! j" by simp
      qed
      have "particion a x (bisect_left_loop a x lo mid)"
        using "1.IH"(2) [OF True mid_def ge] mid "1.prems" above by simp
      with True ge show ?thesis
        by (subst bisect_left_loop.simps) (simp add: mid_def)
    qed
  qed
qed

lemma bisect_left_particion: "sorted a \<Longrightarrow> particion a x (bisect_left a x)"
  unfolding bisect_left_def by (rule bisect_left_loop_particion) simp_all



section \<open>The search for the bracketing rows\<close>

lemma particion_lt: "particion a x r \<Longrightarrow> j < r \<Longrightarrow> a ! j < x"
  by (simp add: particion_def)

lemma particion_ge: "particion a x r \<Longrightarrow> r \<le> j \<Longrightarrow> j < length a \<Longrightarrow> x \<le> a ! j"
  by (simp add: particion_def)

lemma sorted_hd_le: "sorted xs \<Longrightarrow> x \<in> set xs \<Longrightarrow> hd xs \<le> (x::real)"
  by (cases xs) auto

lemma sorted_le_last: "sorted xs \<Longrightarrow> x \<in> set xs \<Longrightarrow> (x::real) \<le> last xs"
  by (induction xs) auto

lemma clave_map_of: "x \<in> set (sort (map fst tabla)) \<Longrightarrow> \<exists>f. map_of tabla x = Some f \<and> (x, f) \<in> set tabla"
proof -
  assume "x \<in> set (sort (map fst tabla))"
  then have "x \<in> fst ` set tabla" by simp
  then have "map_of tabla x \<noteq> None" by (simp add: map_of_eq_None_iff)
  then obtain f where "map_of tabla x = Some f" by blast
  then show ?thesis by (blast dest: map_of_SomeD)
qed

text \<open>What the search of lines 92 to 99 establishes when it does not return None.\<close>

lemma mpe_interpolada_casos:
  fixes tabla :: tabla
  defines "xs \<equiv> sort (map fst tabla)"
  obtains (fuera) "mpe_interpolada mass_g clase tabla = Inr None"
      and "xs = [] \<or> mass_g < hd xs \<or> last xs < mass_g \<or> bisect_left xs mass_g = 0 \<or> bisect_left xs mass_g = length xs"
  | (dentro) x0 x1 f0 f1 where
      "x0 < mass_g" "mass_g \<le> x1"
      "map_of tabla x0 = Some f0" "map_of tabla x1 = Some f1"
      "(x0, f0) \<in> set tabla" "(x1, f1) \<in> set tabla"
      "\<forall>k\<in>fst ` set tabla. k < mass_g \<longrightarrow> k \<le> x0"
      "\<forall>k\<in>fst ` set tabla. mass_g \<le> k \<longrightarrow> x1 \<le> k"
      "mpe_interpolada mass_g clase tabla =
         (case map_of f0 clase of
            None \<Rightarrow> Inr None
          | Some y0 \<Rightarrow>
              (case map_of f1 clase of
                 None \<Rightarrow> Inr None
               | Some y1 \<Rightarrow>
                   (case interpolar_loglog mass_g x0 x1 y0 y1 of
                      Inl e \<Rightarrow> Inl e
                    | Inr v \<Rightarrow> Inr (Some v))))"
proof (cases "xs = [] \<or> mass_g < hd xs \<or> last xs < mass_g \<or> bisect_left xs mass_g = 0 \<or> bisect_left xs mass_g = length xs")
  case True
  then have "mpe_interpolada mass_g clase tabla = Inr None"
    by (auto simp add: mpe_interpolada_def xs_def Let_def)
  then show ?thesis using True by (rule fuera)
next
  case False
  define i where "i = bisect_left xs mass_g"
  have srt: "sorted xs" by (simp add: xs_def)
  have part: "particion xs mass_g i"
    unfolding i_def using srt by (rule bisect_left_particion)
  from False have i: "0 < i" "i < length xs"
    using part by (simp_all add: i_def particion_def)
  define x0 where "x0 = xs ! (i - 1)"
  define x1 where "x1 = xs ! i"
  have "x0 \<in> set xs" "x1 \<in> set xs" using i by (simp_all add: x0_def x1_def)
  then obtain f0 f1 where f: "map_of tabla x0 = Some f0" "(x0, f0) \<in> set tabla"
      "map_of tabla x1 = Some f1" "(x1, f1) \<in> set tabla"
    unfolding xs_def by (blast dest: clave_map_of)
  have lt: "x0 < mass_g" using part i by (simp add: x0_def particion_def)
  have ge: "mass_g \<le> x1" using part i by (simp add: x1_def particion_def)
  have below: "\<forall>k\<in>fst ` set tabla. k < mass_g \<longrightarrow> k \<le> x0"
  proof (intro ballI impI)
    fix k assume "k \<in> fst ` set tabla" "k < mass_g"
    then have "k \<in> set xs" by (simp add: xs_def)
    then obtain j where j: "j < length xs" "xs ! j = k" by (auto simp add: in_set_conv_nth)
    have "j < i"
    proof (rule ccontr)
      assume "\<not> j < i"
      then have "mass_g \<le> xs ! j" using part j by (intro particion_ge [of xs mass_g i]) simp_all
      with \<open>k < mass_g\<close> j show False by simp
    qed
    then have "xs ! j \<le> xs ! (i - 1)" using srt i by (intro sorted_nth_mono) simp_all
    then show "k \<le> x0" using j by (simp add: x0_def)
  qed
  have above: "\<forall>k\<in>fst ` set tabla. mass_g \<le> k \<longrightarrow> x1 \<le> k"
  proof (intro ballI impI)
    fix k assume "k \<in> fst ` set tabla" "mass_g \<le> k"
    then have "k \<in> set xs" by (simp add: xs_def)
    then obtain j where j: "j < length xs" "xs ! j = k" by (auto simp add: in_set_conv_nth)
    have "i \<le> j"
    proof (rule ccontr)
      assume "\<not> i \<le> j"
      then have "xs ! j < mass_g" using part by (intro particion_lt [of xs mass_g i]) simp_all
      with \<open>mass_g \<le> k\<close> j show False by simp
    qed
    then have "xs ! i \<le> xs ! j" using srt j by (intro sorted_nth_mono) simp_all
    then show "x1 \<le> k" using j by (simp add: x1_def)
  qed
  have "mpe_interpolada mass_g clase tabla =
         (case map_of f0 clase of
            None \<Rightarrow> Inr None
          | Some y0 \<Rightarrow>
              (case map_of f1 clase of
                 None \<Rightarrow> Inr None
               | Some y1 \<Rightarrow>
                   (case interpolar_loglog mass_g x0 x1 y0 y1 of
                      Inl e \<Rightarrow> Inl e
                    | Inr v \<Rightarrow> Inr (Some v))))"
    using False f i unfolding x0_def x1_def i_def
    by (simp add: mpe_interpolada_def Let_def xs_def [symmetric] not_less cong: option.case_cong)
  with lt ge f below above show ?thesis by (intro dentro [of x0 x1 f0 f1]) simp_all
qed


section \<open>Properties of the lookup\<close>

lemma tabla_valida_clave: "tabla_valida tabla \<Longrightarrow> (m, f) \<in> set tabla \<Longrightarrow> 0 < m"
  by (auto simp add: tabla_valida_def list_all_iff)

lemma tabla_valida_valor:
  "tabla_valida tabla \<Longrightarrow> (m, f) \<in> set tabla \<Longrightarrow> map_of f c = Some v \<Longrightarrow> 0 < v"
  by (auto simp add: tabla_valida_def list_all_iff dest!: map_of_SomeD)

lemma interpolar_loglog_valor:
  assumes "0 < x0" "x0 < mass_g" "mass_g \<le> x1" "0 < y0" "0 < y1"
  shows "interpolar_loglog mass_g x0 x1 y0 y1 =
           Inr (10 powr (log 10 y0 +
                  (log 10 mass_g - log 10 x0) / (log 10 x1 - log 10 x0) * (log 10 y1 - log 10 y0)))"
proof -
  have "log 10 x0 < log 10 x1" using assms by (intro log_less) simp_all
  then have "log 10 x1 - log 10 x0 \<noteq> 0" by simp
  with assms show ?thesis
    by (simp add: interpolar_loglog_def math_log10_def float_div_def)
qed

lemma mpe_interpolada_sin_error:
  assumes "tabla_valida tabla"
  shows "\<exists>r. mpe_interpolada mass_g clase tabla = Inr r"
proof (cases rule: mpe_interpolada_casos [where tabla = tabla and mass_g = mass_g and clase = clase])
  case fuera
  then show ?thesis by simp
next
  case (dentro x0 x1 f0 f1)
  have "0 < x0" using assms dentro(5) by (rule tabla_valida_clave)
  show ?thesis
  proof (cases "map_of f0 clase")
    case None
    with dentro(9) show ?thesis by simp
  next
    case y0: (Some y0)
    show ?thesis
    proof (cases "map_of f1 clase")
      case None
      with dentro(9) y0 show ?thesis by simp
    next
      case y1: (Some y1)
      have "0 < y0" using assms dentro(5) y0 by (rule tabla_valida_valor)
      moreover have "0 < y1" using assms dentro(6) y1 by (rule tabla_valida_valor)
      ultimately show ?thesis
        using dentro(9) y0 y1 interpolar_loglog_valor [OF \<open>0 < x0\<close> dentro(1,2)]
        by simp
    qed
  qed
qed

lemma mpe_mg_para_sin_error:
  "tabla_valida tabla \<Longrightarrow> \<exists>r. mpe_mg_para mass_g clase tabla = Inr r"
  using mpe_interpolada_sin_error [of tabla mass_g clase]
  by (simp add: mpe_mg_para_def split: option.splits)

lemma mpe_interpolada_clase_ausente:
  assumes "\<forall>f\<in>snd ` set tabla. map_of f clase = None"
  shows "mpe_interpolada mass_g clase tabla = Inr None"
proof (cases rule: mpe_interpolada_casos [where tabla = tabla and mass_g = mass_g and clase = clase])
  case fuera
  then show ?thesis by simp
next
  case (dentro x0 x1 f0 f1)
  from dentro(5) have "f0 \<in> snd ` set tabla" by force
  with assms have "map_of f0 clase = None" by (rule bspec)
  with dentro(9) show ?thesis by simp
qed

lemma mpe_mg_para_clase_ausente:
  assumes "\<forall>f\<in>snd ` set tabla. map_of f clase = None"
  shows "mpe_mg_para mass_g clase tabla = Inr None"
proof (cases "map_of tabla mass_g")
  case None
  then show ?thesis using mpe_interpolada_clase_ausente [OF assms] by (simp add: mpe_mg_para_def)
next
  case (Some f)
  then have "f \<in> snd ` set tabla" by (force dest: map_of_SomeD)
  with assms have "map_of f clase = None" by (rule bspec)
  with Some show ?thesis using mpe_interpolada_clase_ausente [OF assms] by (simp add: mpe_mg_para_def)
qed

lemma mpe_mg_para_fuera_de_rango:
  assumes "tabla = [] \<or> mass_g < Min (fst ` set tabla) \<or> Max (fst ` set tabla) < mass_g"
  shows "mpe_mg_para mass_g clase tabla = Inr None"
proof -
  define xs where "xs = sort (map fst tabla)"
  have nokey: "map_of tabla mass_g = None"
  proof (cases "tabla = []")
    case True then show ?thesis by simp
  next
    case False
    with assms have "mass_g \<notin> fst ` set tabla"
      by (metis List.finite_set Max_ge Min_le finite_imageI not_less)
    then show ?thesis by (simp add: map_of_eq_None_iff)
  qed
  have "xs = [] \<or> mass_g < hd xs \<or> last xs < mass_g"
  proof (cases "tabla = []")
    case True then show ?thesis by (simp add: xs_def)
  next
    case False
    then have "length xs \<noteq> 0" unfolding xs_def by simp
    then have ne: "xs \<noteq> []" by (simp del: length_0_conv)
    have srt: "sorted xs" by (simp add: xs_def)
    have set: "set xs = fst ` set tabla" by (simp add: xs_def)
    have "hd xs = Min (set xs)"
      using ne srt by (intro Min_eqI [symmetric]) (simp_all add: sorted_hd_le)
    moreover have "last xs = Max (set xs)"
      using ne srt by (intro Max_eqI [symmetric]) (simp_all add: sorted_le_last)
    ultimately show ?thesis using assms False set by simp
  qed
  then have "mpe_interpolada mass_g clase tabla = Inr None"
    by (auto simp add: mpe_interpolada_def Let_def xs_def)
  with nokey show ?thesis by (simp add: mpe_mg_para_def)
qed

lemma mpe_mg_para_entre_claves:
  assumes "map_of tabla x0 = Some f0" "map_of tabla x1 = Some f1"
    and "map_of f0 clase = Some y0" "map_of f1 clase = Some y1"
    and "\<forall>k\<in>fst ` set tabla. \<not> (x0 < k \<and> k < x1)"
    and "x0 < mass_g" "mass_g < x1" "0 < x0" "0 < y0" "0 < y1"
  shows "mpe_mg_para mass_g clase tabla =
           Inr (Some (10 powr (log 10 y0 +
                  (log 10 mass_g - log 10 x0) / (log 10 x1 - log 10 x0) * (log 10 y1 - log 10 y0))))"
proof -
  define xs where "xs = sort (map fst tabla)"
  have k0: "x0 \<in> fst ` set tabla" using assms(1) by (force dest: map_of_SomeD)
  have k1: "x1 \<in> fst ` set tabla" using assms(2) by (force dest: map_of_SomeD)
  have "mass_g \<notin> fst ` set tabla" using assms(5,6,7) by blast
  then have nokey: "map_of tabla mass_g = None" by (simp add: map_of_eq_None_iff)
  have srt: "sorted xs" by (simp add: xs_def)
  have part: "particion xs mass_g (bisect_left xs mass_g)"
    using srt by (rule bisect_left_particion)
  have in0: "x0 \<in> set xs" and in1: "x1 \<in> set xs" using k0 k1 by (simp_all add: xs_def)
  have "mpe_interpolada mass_g clase tabla =
           Inr (Some (10 powr (log 10 y0 +
                  (log 10 mass_g - log 10 x0) / (log 10 x1 - log 10 x0) * (log 10 y1 - log 10 y0))))"
  proof (cases rule: mpe_interpolada_casos [where tabla = tabla and mass_g = mass_g and clase = clase])
    case fuera
    have "xs \<noteq> []" using in0 by auto
    moreover have "\<not> mass_g < hd xs" using sorted_hd_le [OF srt in0] assms(6) by simp
    moreover have "\<not> last xs < mass_g" using sorted_le_last [OF srt in1] assms(7) by simp
    moreover have "bisect_left xs mass_g \<noteq> 0"
    proof
      assume z: "bisect_left xs mass_g = 0"
      obtain j where j: "j < length xs" "xs ! j = x0" using in0 by (auto simp add: in_set_conv_nth)
      have "mass_g \<le> xs ! j" using part j(1) z by (intro particion_ge [of xs mass_g 0]) simp_all
      with j(2) assms(6) show False by simp
    qed
    moreover have "bisect_left xs mass_g \<noteq> length xs"
    proof
      assume z: "bisect_left xs mass_g = length xs"
      obtain j where j: "j < length xs" "xs ! j = x1" using in1 by (auto simp add: in_set_conv_nth)
      have "xs ! j < mass_g" using part j(1) z by (intro particion_lt [of xs mass_g "length xs"]) simp_all
      with j(2) assms(7) show False by simp
    qed
    ultimately show ?thesis using fuera(2) by (simp add: xs_def)
  next
    case (dentro x0' x1' f0' f1')
    have "x0 \<le> x0'" using dentro(7) k0 assms(6) by blast
    moreover have "x0' \<in> fst ` set tabla" using dentro(5) by force
    then have "\<not> (x0 < x0' \<and> x0' < x1)" using assms(5) by blast
    ultimately have e0: "x0' = x0" using dentro(1) assms(7) by simp
    have "x1' \<le> x1" using dentro(8) k1 assms(7) by force
    moreover have "x1' \<in> fst ` set tabla" using dentro(6) by force
    then have "\<not> (x0 < x1' \<and> x1' < x1)" using assms(5) by blast
    ultimately have e1: "x1' = x1" using dentro(2) assms(6) by simp
    have "f0' = f0" "f1' = f1" using dentro(3,4) assms(1,2) e0 e1 by simp_all
    then show ?thesis
      using dentro(9) assms(3,4) e0 e1
        interpolar_loglog_valor [of x0 mass_g x1 y0 y1] assms(6-10)
      by simp
  qed
  with nokey show ?thesis by (simp add: mpe_mg_para_def)
qed


section \<open>The log-log interpolant as a closed form\<close>

lemma log10_resta: "0 < a \<Longrightarrow> 0 < b \<Longrightarrow> log 10 a - log 10 b = log 10 (a / b)"
  by (simp add: log_divide)

lemma loglog_forma_cerrada:
  assumes "0 < x0" "0 < mass_g" "0 < x1" "0 < y0" "0 < y1"
  shows "10 powr (log 10 y0 +
            (log 10 mass_g - log 10 x0) / (log 10 x1 - log 10 x0) * (log 10 y1 - log 10 y0)) =
         y0 * (y1 / y0) powr (log (x1 / x0) (mass_g / x0))"
proof -
  define T where "T = log (x1 / x0) (mass_g / x0)"
  have "T = log 10 (mass_g / x0) / log 10 (x1 / x0)"
    unfolding T_def by (rule log_base_change) simp_all
  then have T: "(log 10 mass_g - log 10 x0) / (log 10 x1 - log 10 x0) = T"
    by (simp only: log10_resta [OF assms(2) assms(1)] log10_resta [OF assms(3) assms(1)])
  have "10 powr (log 10 y0 +
            (log 10 mass_g - log 10 x0) / (log 10 x1 - log 10 x0) * (log 10 y1 - log 10 y0)) =
        10 powr (log 10 y0 + T * log 10 (y1 / y0))"
    by (simp only: T log10_resta [OF assms(5) assms(4)])
  also have "\<dots> = 10 powr log 10 y0 * (10 powr log 10 (y1 / y0)) powr T"
    by (simp add: powr_add powr_powr mult.commute)
  also have "\<dots> = y0 * (y1 / y0) powr T"
    using assms by simp
  finally show ?thesis by (simp only: T_def)
qed

lemma raiz_bernoulli:
  fixes c :: real
  assumes "1 \<le> c" "0 < n"
  shows "c powr (1 / real n) \<le> 1 + (c - 1) / real n"
proof -
  define z where "z = 1 + (c - 1) / real n"
  have zpos: "0 < z" using assms by (simp add: z_def add_pos_nonneg)
  have "1 + real n * ((c - 1) / real n) \<le> (1 + (c - 1) / real n) ^ n"
    using assms by (intro Bernoulli_inequality) (simp add: order_trans [of "-1" 0])
  then have "c \<le> z ^ n" using assms by (simp add: z_def)
  then have "c powr (1 / real n) \<le> (z ^ n) powr (1 / real n)"
    using assms by (intro powr_mono2) simp_all
  also have "(z ^ n) powr (1 / real n) = z"
    using zpos assms by (simp add: powr_realpow [symmetric] powr_powr)
  finally show ?thesis by (simp add: z_def)
qed

lemma log_casi_mitad:
  fixes a b :: real
  assumes "1 < b" "0 < a" "0 < n" "1 \<le> b * (1 - real n * (1 - a ^ 2 / b))"
  shows "1 / 2 - 1 / (2 * real n) \<le> log b a"
proof -
  define r where "r = a ^ 2 / b"
  have rpos: "0 < r" using assms by (simp add: r_def)
  have "1 + real n * (r - 1) \<le> (1 + (r - 1)) ^ n"
    using rpos by (intro Bernoulli_inequality) simp
  then have "1 - real n * (1 - r) \<le> r ^ n" by (simp add: algebra_simps)
  moreover have "1 / b \<le> 1 - real n * (1 - r)"
    using assms by (simp add: r_def pos_divide_le_eq mult.commute)
  ultimately have "1 / b \<le> r ^ n" by simp
  then have "log b (1 / b) \<le> log b (r ^ n)"
    using assms rpos by (subst log_le_cancel_iff) simp_all
  moreover have "log b (1 / b) = - 1"
    using assms by (simp add: log_divide)
  moreover have "log b (r ^ n) = real n * (2 * log b a - 1)"
    using assms rpos by (simp add: log_nat_power r_def log_divide)
  ultimately have "- 1 \<le> real n * (2 * log b a - 1)" by simp
  then have "- 1 / real n \<le> 2 * log b a - 1"
    using assms by (simp add: field_simps)
  then show ?thesis by (simp add: field_simps)
qed

lemma ejemplo_t_cotas:
  "1 / 2 - 1 / 2000 \<le> log (2000 / 1000) (1414.21 / 1000 :: real)"
  "log (2000 / 1000) (1414.21 / 1000 :: real) < 1 / 2"
proof -
  show "1 / 2 - 1 / 2000 \<le> log (2000 / 1000) (1414.21 / 1000 :: real)"
    using log_casi_mitad [of 2 "1.41421" 1000] by (simp add: power2_eq_square)
  have "(1.41421 :: real) < sqrt 2" by (rule real_less_rsqrt) (simp add: power2_eq_square)
  then have "(1.41421 :: real) < 2 powr (1 / 2)" by (simp add: powr_half_sqrt)
  then have "log 2 (1.41421 :: real) < 1 / 2" by (subst log_less_iff) simp_all
  then show "log (2000 / 1000) (1414.21 / 1000 :: real) < 1 / 2" by simp
qed

lemma ejemplo_valor_cotas:
  fixes t :: real
  assumes "1 / 2 - 1 / 2000 \<le> t" "t < 1 / 2"
  shows "97.95 < 80 * (120 / 80) powr t" "80 * (120 / 80) powr t < (97.98 :: real)"
proof -
  have c: "(120 / 80 :: real) = 1.5" by simp
  have "(1.5 :: real) powr t < 1.5 powr (1 / 2)" using assms by (intro powr_less_mono) simp_all
  also have "\<dots> = sqrt 1.5" by (simp add: powr_half_sqrt)
  also have "\<dots> < 1.22475" by (rule real_less_lsqrt) (simp_all add: power2_eq_square)
  finally show "80 * (120 / 80) powr t < (97.98 :: real)" unfolding c by simp
  have r: "(1.5 :: real) powr (1 / 2000) \<le> 1.00025"
    using raiz_bernoulli [of "1.5" 2000] by simp
  have pos: "0 < (1.5 :: real) powr (1 / 2000)" by simp
  have "(1.2247 :: real) < sqrt 1.5" by (rule real_less_rsqrt) (simp add: power2_eq_square)
  also have "\<dots> = 1.5 powr (1 / 2)" by (simp add: powr_half_sqrt)
  also have "\<dots> = 1.5 powr (1 / 2 - 1 / 2000) * 1.5 powr (1 / 2000)"
    by (simp only: powr_add [symmetric]) simp
  also have "\<dots> \<le> 1.5 powr t * 1.5 powr (1 / 2000)"
    using assms by (intro mult_right_mono powr_mono) simp_all
  also have "\<dots> \<le> 1.5 powr t * 1.00025"
    using r by (intro mult_left_mono) simp_all
  finally have "(1.2247 :: real) / 1.00025 < 1.5 powr t" by (simp add: field_simps)
  then show "97.95 < 80 * (120 / 80) powr t" unfolding c by simp
qed


section \<open>Properties of the scan over the classes\<close>

lemma recorrer_clases_find:
  assumes "\<forall>c\<in>set clases. \<exists>r. mpe_mg_para mass_g c tabla = Inr r"
    and "umbral_std_g \<noteq> None \<or> umbral_mpe_mg \<noteq> None"
  shows "recorrer_clases mass_g umbral_std_g umbral_mpe_mg tabla clases =
         Inr (find (clase_califica mass_g umbral_std_g umbral_mpe_mg tabla) clases)"
  using assms
proof (induction clases)
  case Nil
  show ?case by simp
next
  case (Cons c cs)
  from Cons.prems(1) obtain r where r: "mpe_mg_para mass_g c tabla = Inr r" by auto
  have IH: "recorrer_clases mass_g umbral_std_g umbral_mpe_mg tabla cs =
         Inr (find (clase_califica mass_g umbral_std_g umbral_mpe_mg tabla) cs)"
    using Cons by simp
  show ?case
  proof (cases r)
    case None
    with r have "\<not> clase_califica mass_g umbral_std_g umbral_mpe_mg tabla c"
      by (simp add: clase_califica_def)
    with r None IH show ?thesis by simp
  next
    case (Some v)
    with r have "clase_califica mass_g umbral_std_g umbral_mpe_mg tabla c =
        cumple_umbral umbral_std_g umbral_mpe_mg v"
      by (simp add: clase_califica_def)
    with r Some IH Cons.prems(2) show ?thesis
      by (cases umbral_mpe_mg; cases umbral_std_g)
         (simp_all add: cumple_umbral_def math_sqrt_def float_div_def)
  qed
qed

lemma interpolar_loglog_no_usage: "interpolar_loglog mass_g x0 x1 y0 y1 \<noteq> Inl UsageError"
  by (simp add: interpolar_loglog_def math_log10_def float_div_def)

lemma mpe_interpolada_no_usage: "mpe_interpolada mass_g clase tabla \<noteq> Inl UsageError"
  using interpolar_loglog_no_usage
  by (cases rule: mpe_interpolada_casos [where tabla = tabla and mass_g = mass_g and clase = clase])
     (auto split: option.splits sum.splits)

lemma mpe_mg_para_no_usage: "mpe_mg_para mass_g clase tabla \<noteq> Inl UsageError"
  using mpe_interpolada_no_usage [of mass_g clase tabla]
  by (simp add: mpe_mg_para_def split: option.splits)

lemma recorrer_clases_no_usage:
  "recorrer_clases mass_g umbral_std_g umbral_mpe_mg tabla clases \<noteq> Inl UsageError"
proof (induction clases)
  case Nil
  show ?case by simp
next
  case (Cons c cs)
  have "mpe_mg_para mass_g c tabla \<noteq> Inl UsageError" by (rule mpe_mg_para_no_usage)
  then show ?case using Cons
    by (auto simp add: math_sqrt_def float_div_def split: sum.splits option.splits)
qed

lemma recorrer_clases_mpe_gana:
  "recorrer_clases mass_g (Some a) (Some b) tabla clases = recorrer_clases mass_g None (Some b) tabla clases"
  by (induction clases) (simp_all split: sum.splits option.splits)

text \<open>Facts about the built-in example table.\<close>

lemma ex_valida: "tabla_valida MPE_TABLE_EXAMPLE_MG"
  by (simp add: tabla_valida_def MPE_TABLE_EXAMPLE_MG_def)

lemma ex_E1: "\<forall>f\<in>snd ` set MPE_TABLE_EXAMPLE_MG. map_of f ''E1'' = None"
  by (simp add: MPE_TABLE_EXAMPLE_MG_def)

lemma ex_max: "Max (fst ` set MPE_TABLE_EXAMPLE_MG) = 50000"
  by (simp add: MPE_TABLE_EXAMPLE_MG_def)

lemma ex_min: "Min (fst ` set MPE_TABLE_EXAMPLE_MG) = 1"
  by (simp add: MPE_TABLE_EXAMPLE_MG_def)

lemma ex_between: "\<forall>k\<in>fst ` set MPE_TABLE_EXAMPLE_MG. \<not> (1000 < k \<and> k < 2000)"
  by (simp add: MPE_TABLE_EXAMPLE_MG_def)


section \<open>The class selector: results\<close>

text \<open>
  Claim C6. When the mass is a key of the table and the row of that key has a value for the
  class, \<open>mpe_mg_para\<close> returns the stored value itself; on the example table, mass 2000
  and class F1 give 120.
\<close>

theorem mpe_mg_para_coincidencia_exacta:
  "(map_of tabla mass_g = Some f \<longrightarrow> map_of f clase = Some v \<longrightarrow>
      mpe_mg_para mass_g clase tabla = Inr (Some v)) \<and>
   mpe_mg_para 2000 ''F1'' MPE_TABLE_EXAMPLE_MG = Inr (Some 120)"
  by (simp add: mpe_mg_para_def MPE_TABLE_EXAMPLE_MG_def)

theorem mpe_mg_para_coincidencia_exacta_witness:
  "mpe_mg_para 5 ''M1'' [(2, [(''M1'', 60)]), (5, [(''F2'', 15), (''M1'', 75)])] = Inr (Some 75)"
  using mpe_mg_para_coincidencia_exacta
    [of "[(2, [(''M1'', 60)]), (5, [(''F2'', 15), (''M1'', 75)])]" 5
        "[(''F2'', 15), (''M1'', 75)]" "''M1''" 75]
  by simp

text \<open>
  Claim C5. For every class, a mass below the smallest key or above the largest key of the
  table (or any mass when the table is empty) gives "not available": there is no
  extrapolation. On the example table, whose largest key is 50000, mass 100000 gives "not
  available" for every class.
\<close>

theorem mpe_mg_para_sin_extrapolacion:
  "(tabla = [] \<or> mass_g < Min (fst ` set tabla) \<or> Max (fst ` set tabla) < mass_g \<longrightarrow>
      mpe_mg_para mass_g clase tabla = Inr None) \<and>
   mpe_mg_para 100000 clase MPE_TABLE_EXAMPLE_MG = Inr None"
proof (intro conjI impI)
  assume "tabla = [] \<or> mass_g < Min (fst ` set tabla) \<or> Max (fst ` set tabla) < mass_g"
  then show "mpe_mg_para mass_g clase tabla = Inr None"
    by (rule mpe_mg_para_fuera_de_rango)
next
  show "mpe_mg_para 100000 clase MPE_TABLE_EXAMPLE_MG = Inr None"
    by (rule mpe_mg_para_fuera_de_rango) (simp add: ex_max)
qed

theorem mpe_mg_para_sin_extrapolacion_witness:
  "mpe_mg_para (1 / 2) ''F1'' MPE_TABLE_EXAMPLE_MG = Inr None \<and>
   mpe_mg_para 50001 ''F1'' MPE_TABLE_EXAMPLE_MG = Inr None"
  using mpe_mg_para_sin_extrapolacion [of MPE_TABLE_EXAMPLE_MG "1 / 2" "''F1''"]
    mpe_mg_para_sin_extrapolacion [of MPE_TABLE_EXAMPLE_MG 50001 "''F1''"]
  by (simp add: ex_max ex_min)

text \<open>
  Claim C8. No row of the example table has a value for class E1, and for every mass
  \<open>mpe_mg_para\<close> gives "not available" for E1 on the example table: the missing value is
  absent and never read as zero.
\<close>

theorem mpe_mg_para_E1_ausente:
  "(\<forall>f\<in>snd ` set MPE_TABLE_EXAMPLE_MG. map_of f ''E1'' = None) \<and>
   mpe_mg_para mass_g ''E1'' MPE_TABLE_EXAMPLE_MG = Inr None"
  using ex_E1 mpe_mg_para_clase_ausente [OF ex_E1] by simp

theorem mpe_mg_para_E1_ausente_witness:
  "mpe_mg_para 2000 ''E1'' MPE_TABLE_EXAMPLE_MG = Inr None \<and>
   mpe_mg_para 1500 ''E1'' MPE_TABLE_EXAMPLE_MG = Inr None"
  using mpe_mg_para_E1_ausente [of 2000] mpe_mg_para_E1_ausente [of 1500] by simp

text \<open>
  Claim C10. When the mass is a key of the table and the row of that key has no value for
  the class, \<open>mpe_mg_para\<close> gives "not available", whatever the neighbouring rows hold:
  it never interpolates across a tabulated key.
\<close>

theorem mpe_mg_para_no_interpola_sobre_clave:
  assumes "map_of tabla mass_g = Some f" "map_of f clase = None"
  shows "mpe_mg_para mass_g clase tabla = Inr None"
proof -
  have key: "mass_g \<in> fst ` set tabla" using assms(1) by (force dest: map_of_SomeD)
  have "mpe_interpolada mass_g clase tabla = Inr None"
  proof (cases rule: mpe_interpolada_casos [where tabla = tabla and mass_g = mass_g and clase = clase])
    case fuera
    then show ?thesis by simp
  next
    case (dentro x0 x1 f0 f1)
    from dentro(8) key have "x1 \<le> mass_g" by blast
    with dentro(2) have "x1 = mass_g" by simp
    with dentro(4) assms have "map_of f1 clase = None" by simp
    with dentro(9) show ?thesis by (simp split: option.splits)
  qed
  with assms show ?thesis by (simp add: mpe_mg_para_def)
qed

theorem mpe_mg_para_no_interpola_sobre_clave_witness:
  "mpe_mg_para 2 ''F1'' [(1, [(''F1'', 3)]), (2, [(''F2'', 12)]), (5, [(''F1'', 4)])] = Inr None \<and>
   mpe_mg_para 1 ''F1'' [(1, [(''F2'', 10)]), (2, [(''F1'', 7 / 2)]), (5, [(''F1'', 4)])] = Inr None"
  using mpe_mg_para_no_interpola_sobre_clave
      [of "[(1, [(''F1'', 3)]), (2, [(''F2'', 12)]), (5, [(''F1'', 4)])]" 2 "[(''F2'', 12)]" "''F1''"]
    mpe_mg_para_no_interpola_sobre_clave
      [of "[(1, [(''F2'', 10)]), (2, [(''F1'', 7 / 2)]), (5, [(''F1'', 4)])]" 1 "[(''F2'', 10)]" "''F1''"]
  by simp

text \<open>
  Claim C9. An empty table, like no table, makes \<open>seleccionar_clase_pesa\<close> fall back to
  the example table: the result with the empty table is the result with the example table.
\<close>

theorem seleccionar_tabla_vacia:
  "seleccionar_clase_pesa mass_g umbral_std_g umbral_mpe_mg (Some []) clases_orden =
   seleccionar_clase_pesa mass_g umbral_std_g umbral_mpe_mg (Some MPE_TABLE_EXAMPLE_MG) clases_orden"
  by (simp add: seleccionar_clase_pesa_def tabla_o_ejemplo_def MPE_TABLE_EXAMPLE_MG_def)

theorem seleccionar_tabla_vacia_witness:
  "seleccionar_clase_pesa 2000 None (Some 60) (Some []) CLASSES_ORDER = Inr (Some ''E2'')"
  using seleccionar_tabla_vacia [of 2000 None "Some 60" CLASSES_ORDER]
  by (simp add: seleccionar_clase_pesa_def tabla_o_ejemplo_def CLASSES_ORDER_def
      mpe_mg_para_def MPE_TABLE_EXAMPLE_MG_def)

text \<open>
  Claim C4. For a mass strictly between two consecutive keys \<open>x0 < x1\<close> of the table
  whose rows hold the values \<open>y0\<close> and \<open>y1\<close> for the class (masses and MPE values being
  positive, as the data model says), \<open>mpe_mg_para\<close> returns the log-log interpolant
  \<open>10 powr (log10 y0 + t * (log10 y1 - log10 y0))\<close> with
  \<open>t = (log10 mass - log10 x0) / (log10 x1 - log10 x0)\<close>. On the example table, mass
  1414.21 and class F1 give a value between 97.95 and 97.98: strictly between 80 and 120,
  close to the geometric-mean point and not the arithmetic mean 100.
\<close>

theorem mpe_mg_para_interpolacion_loglog:
  "(map_of tabla x0 = Some f0 \<and> map_of tabla x1 = Some f1 \<and>
    map_of f0 clase = Some y0 \<and> map_of f1 clase = Some y1 \<and>
    (\<forall>k\<in>fst ` set tabla. \<not> (x0 < k \<and> k < x1)) \<and>
    x0 < mass_g \<and> mass_g < x1 \<and> 0 < x0 \<and> 0 < y0 \<and> 0 < y1 \<longrightarrow>
      mpe_mg_para mass_g clase tabla =
        Inr (Some (10 powr (log 10 y0 +
               (log 10 mass_g - log 10 x0) / (log 10 x1 - log 10 x0) *
               (log 10 y1 - log 10 y0))))) \<and>
   (\<exists>v. mpe_mg_para 1414.21 ''F1'' MPE_TABLE_EXAMPLE_MG = Inr (Some v) \<and>
        80 < v \<and> v < 120 \<and> v \<noteq> 100 \<and> 97.95 < v \<and> v < 97.98)"
proof (intro conjI impI)
  assume "map_of tabla x0 = Some f0 \<and> map_of tabla x1 = Some f1 \<and>
    map_of f0 clase = Some y0 \<and> map_of f1 clase = Some y1 \<and>
    (\<forall>k\<in>fst ` set tabla. \<not> (x0 < k \<and> k < x1)) \<and>
    x0 < mass_g \<and> mass_g < x1 \<and> 0 < x0 \<and> 0 < y0 \<and> 0 < y1"
  then show "mpe_mg_para mass_g clase tabla =
        Inr (Some (10 powr (log 10 y0 +
               (log 10 mass_g - log 10 x0) / (log 10 x1 - log 10 x0) *
               (log 10 y1 - log 10 y0))))"
    by (intro mpe_mg_para_entre_claves [of tabla x0 f0 x1 f1]) simp_all
next
  define v :: real where
    "v = 10 powr (log 10 80 +
           (log 10 1414.21 - log 10 1000) / (log 10 2000 - log 10 1000) *
           (log 10 120 - log 10 80))"
  have f0: "map_of MPE_TABLE_EXAMPLE_MG 1000 =
      Some [(''E2'', 30), (''F1'', 80), (''F2'', 300), (''M1'', 1500), (''M2'', 4500), (''M3'', 15000)]"
    by (simp add: MPE_TABLE_EXAMPLE_MG_def)
  have f1: "map_of MPE_TABLE_EXAMPLE_MG 2000 =
      Some [(''E2'', 50), (''F1'', 120), (''F2'', 500), (''M1'', 2500), (''M2'', 7500), (''M3'', 25000)]"
    by (simp add: MPE_TABLE_EXAMPLE_MG_def)
  have "mpe_mg_para 1414.21 ''F1'' MPE_TABLE_EXAMPLE_MG = Inr (Some v)"
    unfolding v_def
    by (rule mpe_mg_para_entre_claves [OF f0 f1 _ _ ex_between]) simp_all
  moreover have "v = 80 * (120 / 80) powr (log (2000 / 1000) (1414.21 / 1000))"
    unfolding v_def by (rule loglog_forma_cerrada) simp_all
  then have "97.95 < v" "v < 97.98"
    using ejemplo_valor_cotas [OF ejemplo_t_cotas] by simp_all
  ultimately show "\<exists>v. mpe_mg_para 1414.21 ''F1'' MPE_TABLE_EXAMPLE_MG = Inr (Some v) \<and>
        80 < v \<and> v < 120 \<and> v \<noteq> 100 \<and> 97.95 < v \<and> v < 97.98"
    by (intro exI [of _ v]) simp
qed

theorem mpe_mg_para_interpolacion_loglog_witness:
  "mpe_mg_para 3 ''F1'' [(2, [(''F1'', 7 / 2)]), (5, [(''F1'', 4)])] =
     Inr (Some (10 powr (log 10 (7 / 2) +
            (log 10 3 - log 10 2) / (log 10 5 - log 10 2) * (log 10 4 - log 10 (7 / 2)))))"
  using mpe_mg_para_interpolacion_loglog
    [of "[(2, [(''F1'', 7 / 2)]), (5, [(''F1'', 4)])]" 2 "[(''F1'', 7 / 2)]" 5 "[(''F1'', 4)]"
        "''F1''" "7 / 2" 4 3]
  by simp

text \<open>
  The scan itself, for a valid table and a supplied threshold: the result is the first class
  of \<open>clases_orden\<close>, in the order given, whose MPE is available and meets the threshold;
  classes without an available MPE are passed over, and the result is \<open>None\<close> exactly
  when no class of the order qualifies.
\<close>

lemma seleccionar_clase_pesa_find:
  assumes "tabla_valida (tabla_o_ejemplo tabla_mpe_mg)"
    and "umbral_std_g \<noteq> None \<or> umbral_mpe_mg \<noteq> None"
  shows "seleccionar_clase_pesa mass_g umbral_std_g umbral_mpe_mg tabla_mpe_mg clases_orden =
           Inr (find (clase_califica mass_g umbral_std_g umbral_mpe_mg
                        (tabla_o_ejemplo tabla_mpe_mg)) clases_orden)"
proof -
  have "\<forall>c\<in>set clases_orden. \<exists>r. mpe_mg_para mass_g c (tabla_o_ejemplo tabla_mpe_mg) = Inr r"
    using assms(1) by (simp add: mpe_mg_para_sin_error)
  then have "recorrer_clases mass_g umbral_std_g umbral_mpe_mg (tabla_o_ejemplo tabla_mpe_mg)
        clases_orden =
      Inr (find (clase_califica mass_g umbral_std_g umbral_mpe_mg
                   (tabla_o_ejemplo tabla_mpe_mg)) clases_orden)"
    using assms(2) by (rule recorrer_clases_find)
  with assms(2) show ?thesis
    by (auto simp add: seleccionar_clase_pesa_def)
qed

lemma seleccionar_clase_pesa_None_iff:
  assumes "tabla_valida (tabla_o_ejemplo tabla_mpe_mg)"
    and "umbral_std_g \<noteq> None \<or> umbral_mpe_mg \<noteq> None"
  shows "(seleccionar_clase_pesa mass_g umbral_std_g umbral_mpe_mg tabla_mpe_mg clases_orden =
            Inr None) =
         (\<forall>c\<in>set clases_orden.
            \<not> clase_califica mass_g umbral_std_g umbral_mpe_mg (tabla_o_ejemplo tabla_mpe_mg) c)"
  unfolding seleccionar_clase_pesa_find [OF assms] by (auto simp add: find_None_iff)

lemma ejemplo_mpe_2000:
  "mpe_mg_para 2000 ''E2'' MPE_TABLE_EXAMPLE_MG = Inr (Some 50)"
  "mpe_mg_para 2000 ''F1'' MPE_TABLE_EXAMPLE_MG = Inr (Some 120)"
  "mpe_mg_para 2000 ''F2'' MPE_TABLE_EXAMPLE_MG = Inr (Some 500)"
  "mpe_mg_para 2000 ''M1'' MPE_TABLE_EXAMPLE_MG = Inr (Some 2500)"
  "mpe_mg_para 2000 ''M2'' MPE_TABLE_EXAMPLE_MG = Inr (Some 7500)"
  "mpe_mg_para 2000 ''M3'' MPE_TABLE_EXAMPLE_MG = Inr (Some 25000)"
  by (simp_all add: mpe_mg_para_def MPE_TABLE_EXAMPLE_MG_def)

text \<open>
  Claim C3. The scan is over \<open>CLASSES_ORDER\<close>, which lists the classes from E2 to M3,
  that is from the smallest MPE to the largest. At mass 2000 with the MPE threshold 60 the
  result is E2, as the claim says. With the threshold 600 the result is E2 again (MPE 50),
  although F2 (MPE 500) also meets the threshold and M1, M2 and M3 do not: the class returned
  is the tightest one that qualifies, not the loosest.
\<close>

theorem seleccionar_devuelve_la_mas_estricta:
  "seleccionar_clase_pesa 2000 None (Some 60) None CLASSES_ORDER = Inr (Some ''E2'') \<and>
   seleccionar_clase_pesa 2000 None (Some 600) None CLASSES_ORDER = Inr (Some ''E2'') \<and>
   mpe_mg_para 2000 ''E2'' MPE_TABLE_EXAMPLE_MG = Inr (Some 50) \<and>
   mpe_mg_para 2000 ''F2'' MPE_TABLE_EXAMPLE_MG = Inr (Some 500) \<and>
   clase_califica 2000 None (Some 600) MPE_TABLE_EXAMPLE_MG ''F2'' \<and>
   \<not> clase_califica 2000 None (Some 600) MPE_TABLE_EXAMPLE_MG ''M1'' \<and>
   \<not> clase_califica 2000 None (Some 600) MPE_TABLE_EXAMPLE_MG ''M2'' \<and>
   \<not> clase_califica 2000 None (Some 600) MPE_TABLE_EXAMPLE_MG ''M3''"
  by (simp add: seleccionar_clase_pesa_def tabla_o_ejemplo_def CLASSES_ORDER_def
      clase_califica_def cumple_umbral_def ejemplo_mpe_2000)

text \<open>
  Claim C1, as amended. \<open>seleccionar_clase_pesa\<close> fails with the usage error exactly
  when both thresholds are absent. When both are supplied the call is not rejected: the MPE
  threshold decides and the standard-uncertainty threshold is ignored.
\<close>

theorem seleccionar_error_de_uso:
  "((seleccionar_clase_pesa mass_g umbral_std_g umbral_mpe_mg tabla_mpe_mg clases_orden =
       Inl UsageError) =
    (umbral_std_g = None \<and> umbral_mpe_mg = None)) \<and>
   seleccionar_clase_pesa mass_g (Some u_std) (Some u_mpe) tabla_mpe_mg clases_orden =
     seleccionar_clase_pesa mass_g None (Some u_mpe) tabla_mpe_mg clases_orden"
  by (auto simp add: seleccionar_clase_pesa_def recorrer_clases_no_usage recorrer_clases_mpe_gana)

theorem seleccionar_error_de_uso_witness:
  "seleccionar_clase_pesa 2000 None None None CLASSES_ORDER = Inl UsageError \<and>
   seleccionar_clase_pesa 2000 (Some 1) None None CLASSES_ORDER \<noteq> Inl UsageError \<and>
   seleccionar_clase_pesa 2000 (Some 1) (Some 60) None CLASSES_ORDER \<noteq> Inl UsageError"
  using seleccionar_error_de_uso [THEN conjunct1, of 2000 None None None CLASSES_ORDER]
    seleccionar_error_de_uso [THEN conjunct1, of 2000 "Some 1" None None CLASSES_ORDER]
    seleccionar_error_de_uso [THEN conjunct1, of 2000 "Some 1" "Some 60" None CLASSES_ORDER]
  by simp

text \<open>
  Claim C1 as stated fails: with both thresholds supplied the call returns class E2.
\<close>

theorem seleccionar_acepta_ambos_umbrales:
  "seleccionar_clase_pesa 2000 (Some 1) (Some 60) None CLASSES_ORDER = Inr (Some ''E2'')"
  by (simp add: seleccionar_clase_pesa_def tabla_o_ejemplo_def CLASSES_ORDER_def
      ejemplo_mpe_2000)

end
